theory Spec2Isabelle
  imports Complex_Main "HOL-Library.AList"
begin

section \<open>The marketing-mix wrapper: attribution aggregation and budget allocation\<close>

text \<open>
  This theory embeds the two numeric methods of the class \<open>MeridianWrapper\<close>,
  \<open>get_optimal_budget_allocation\<close> and \<open>generate_report_data\<close>, and settles the
  properties stated about them.
\<close>

subsection \<open>JavaScript numbers\<close>

text \<open>
  A JavaScript number is a binary64 value. The model keeps its four kinds of value: a
  finite number, the two infinities and NaN. The special values follow IEEE 754 as the
  language applies it (\<open>x / 0\<close> is an infinity, \<open>0 / 0\<close> and \<open>0 * Infinity\<close> are
  NaN, every comparison with NaN is false, \<open>NaN !== NaN\<close> is true). Arithmetic on finite
  values is exact: rounding and overflow are not modelled, so a finite result stands for
  the binary64 value nearest to it. The sign of a zero is not modelled either; the only
  divisors in the two methods are results of \<open>reduce\<close> started at \<open>0\<close> or of \<open>+=\<close>
  on a variable started at \<open>0\<close>, and such a sum is never the negative zero, so a zero
  divisor is always the positive zero, as \<open>js_div\<close> takes it.
\<close>

datatype number = is_Fin: Fin (the_real: real) | PInf | NInf | NaN

fun js_add :: "number \<Rightarrow> number \<Rightarrow> number" where
  "js_add NaN y = NaN"
| "js_add x NaN = NaN"
| "js_add (Fin a) (Fin b) = Fin (a + b)"
| "js_add PInf NInf = NaN"
| "js_add NInf PInf = NaN"
| "js_add PInf y = PInf"
| "js_add x PInf = PInf"
| "js_add NInf y = NInf"
| "js_add x NInf = NInf"

fun js_mul :: "number \<Rightarrow> number \<Rightarrow> number" where
  "js_mul NaN y = NaN"
| "js_mul x NaN = NaN"
| "js_mul (Fin a) (Fin b) = Fin (a * b)"
| "js_mul (Fin a) PInf = (if a = 0 then NaN else if 0 < a then PInf else NInf)"
| "js_mul (Fin a) NInf = (if a = 0 then NaN else if 0 < a then NInf else PInf)"
| "js_mul PInf (Fin b) = (if b = 0 then NaN else if 0 < b then PInf else NInf)"
| "js_mul NInf (Fin b) = (if b = 0 then NaN else if 0 < b then NInf else PInf)"
| "js_mul PInf PInf = PInf"
| "js_mul PInf NInf = NInf"
| "js_mul NInf PInf = NInf"
| "js_mul NInf NInf = PInf"

fun js_div :: "number \<Rightarrow> number \<Rightarrow> number" where
  "js_div NaN y = NaN"
| "js_div x NaN = NaN"
| "js_div (Fin a) (Fin b) =
     (if b = 0 then (if a = 0 then NaN else if 0 < a then PInf else NInf)
      else Fin (a / b))"
| "js_div (Fin a) PInf = Fin 0"
| "js_div (Fin a) NInf = Fin 0"
| "js_div PInf (Fin b) = (if 0 \<le> b then PInf else NInf)"
| "js_div NInf (Fin b) = (if 0 \<le> b then NInf else PInf)"
| "js_div PInf y = NaN"
| "js_div NInf y = NaN"

text \<open>The comparisons \<open><\<close> and \<open>></\<close>, and the strict inequality \<open>!==\<close>.\<close>

fun js_lt :: "number \<Rightarrow> number \<Rightarrow> bool" where
  "js_lt NaN y = False"
| "js_lt x NaN = False"
| "js_lt (Fin a) (Fin b) = (a < b)"
| "js_lt (Fin a) PInf = True"
| "js_lt (Fin a) NInf = False"
| "js_lt PInf y = False"
| "js_lt NInf NInf = False"
| "js_lt NInf y = True"

definition js_gt :: "number \<Rightarrow> number \<Rightarrow> bool" where
  "js_gt x y = js_lt y x"

fun js_sne :: "number \<Rightarrow> number \<Rightarrow> bool" where
  "js_sne NaN y = True"
| "js_sne x NaN = True"
| "js_sne x y = (if x = y then False else True)"

text \<open>\<open>xs.reduce((sum, v) => sum + v, 0)\<close>: a left fold from the number \<open>0\<close>.\<close>

definition reduce_sum :: "number list \<Rightarrow> number" where
  "reduce_sum xs = foldl js_add (Fin 0) xs"

subsection \<open>Objects and the wrapper's state\<close>

text \<open>
  An object used as a dictionary (\<open>Record<string, T>\<close>) is an association list with
  one entry per key, in the order \<open>for ... in\<close> and \<open>Object.values\<close> enumerate it.
  The assignment \<open>obj[k] = v\<close> is \<open>AList.update k v\<close>: it replaces the value of a
  key that is present and appends a new key at the end. (The engine enumerates keys that
  are canonical array indices before the others; no property below depends on the
  order of enumeration.)
\<close>

type_synonym 'a obj = "(string \<times> 'a) list"

record roi_estimate =
  mean :: number
  std :: number
  lower_bound :: number
  upper_bound :: number

record model_fit =
  r_squared :: number
  mape :: number

record model_results =
  channel_contributions :: "number list obj"
  roi_values :: "roi_estimate obj"
  model_fit :: model_fit

text \<open>
  The fields of the class that the two methods read: \<open>results\<close> (\<open>null\<close> until
  \<open>fit_model\<close> has run) and \<open>channelColumns\<close>.
\<close>

record wrapper =
  results :: "model_results option"
  channelColumns :: "string list"

text \<open>
  A constraint object \<open>{min?, max?}\<close>: \<open>'min' in c\<close> is \<open>min_c c \<noteq> None\<close>. The
  argument \<open>constraints\<close> defaults to \<open>null\<close>, which is \<open>None\<close>.
\<close>

record budget_constraint =
  min_c :: "number option"
  max_c :: "number option"

text \<open>
  The exceptions. The source throws \<open>Error\<close> with a message; reading a property of
  \<open>undefined\<close> throws \<open>TypeError\<close>. The three named errors are those of the
  specification; the source never constructs them.
\<close>

datatype error =
    Error string
  | TypeError
  | DegenerateWeightsError
  | InfeasibleConstraintsError "string list"
  | MisalignedSeriesError "string list"

subsection \<open>The budget allocator\<close>

text \<open>The loop that copies each channel's ROI mean into \<open>roiMeans\<close>.\<close>

definition roiMeans_of :: "roi_estimate obj \<Rightarrow> number obj" where
  "roiMeans_of rv = fold (\<lambda>(channel, r) acc. AList.update channel (mean r) acc) rv []"

text \<open>The initial allocation: \<open>(roiMeans[channel] / totalRoi) * totalBudget\<close>.\<close>

definition initial_allocation :: "number obj \<Rightarrow> number \<Rightarrow> number \<Rightarrow> number obj" where
  "initial_allocation roiMeans totalRoi totalBudget =
     fold (\<lambda>(channel, m) acc.
             AList.update channel (js_mul (js_div m totalRoi) totalBudget) acc) roiMeans []"

text \<open>
  The body of the loop over \<open>constraints\<close>: a channel that is not in the allocation is
  skipped; the lower bound is applied first, and the upper bound to the value the first
  assignment left.
\<close>

definition apply_constraint :: "string \<times> budget_constraint \<Rightarrow> number obj \<Rightarrow> number obj" where
  "apply_constraint = (\<lambda>(channel, c) allocation.
     (case map_of allocation channel of
        None \<Rightarrow> allocation
      | Some a \<Rightarrow>
          (let a1 = (case min_c c of
                       None \<Rightarrow> a
                     | Some lo \<Rightarrow> if js_lt a lo then lo else a);
               a2 = (case max_c c of
                       None \<Rightarrow> a1
                     | Some hi \<Rightarrow> if js_gt a1 hi then hi else a1)
           in AList.update channel a2 allocation)))"

definition apply_constraints :: "budget_constraint obj option \<Rightarrow> number obj \<Rightarrow> number obj" where
  "apply_constraints constraints allocation =
     (case constraints of
        None \<Rightarrow> allocation
      | Some cs \<Rightarrow> fold apply_constraint cs allocation)"

text \<open>The normalisation: one uniform rescale when the total differs from the budget.\<close>

definition normalize :: "number \<Rightarrow> number obj \<Rightarrow> number obj" where
  "normalize totalBudget allocation =
     (let currentTotal = reduce_sum (map snd allocation)
      in if js_sne currentTotal totalBudget
         then (let scalingFactor = js_div totalBudget currentTotal
               in fold (\<lambda>channel acc.
                          (case map_of acc channel of
                             None \<Rightarrow> acc
                           | Some a \<Rightarrow> AList.update channel (js_mul a scalingFactor) acc))
                       (map fst allocation) allocation)
         else allocation)"

text \<open>
  The first half of the method's body: the ROI means, their total, the initial allocation
  and the loop over the constraints.
\<close>

definition clamped_allocation ::
    "model_results \<Rightarrow> number \<Rightarrow> budget_constraint obj option \<Rightarrow> number obj" where
  "clamped_allocation res totalBudget constraints =
     (let roiMeans = roiMeans_of (roi_values res);
          totalRoi = reduce_sum (map snd roiMeans);
          allocation = initial_allocation roiMeans totalRoi totalBudget
      in apply_constraints constraints allocation)"

text \<open>
  The method. The \<open>catch\<close> block logs the error on the console and throws it again, so
  the error value is the one thrown in the body.
\<close>

definition get_optimal_budget_allocation ::
    "wrapper \<Rightarrow> number \<Rightarrow> budget_constraint obj option \<Rightarrow> error + number obj" where
  "get_optimal_budget_allocation this totalBudget constraints =
     (case results this of
        None \<Rightarrow> Inl (Error ''No model results. Call fit_model() first.'')
      | Some res \<Rightarrow>
          Inr (normalize totalBudget (clamped_allocation res totalBudget constraints)))"

subsection \<open>The attribution aggregator\<close>

text \<open>
  \<open>generate_report_data\<close> reads two things that are not arguments: \<open>Math.random\<close>,
  90 times, for the \<open>target\<close> series, and the host's time zone, through \<open>Date\<close>, for the
  date labels. Both are made explicit: \<open>random env i\<close> is the value the \<open>i\<close>-th call
  of \<open>Math.random\<close> returns, and \<open>date_label env i\<close> is the string
  \<open>date.toISOString().split('T')[0]\<close> for the day offset \<open>i\<close>.
\<close>

record environment =
  random :: "nat \<Rightarrow> real"
  date_label :: "nat \<Rightarrow> string"

record channel_performance_entry =
  roi :: number
  roi_lower :: number
  roi_upper :: number
  total_contribution :: number
  contribution_percentage :: number

record model_summary =
  summary_r_squared :: number
  summary_mape :: number
  period_start :: string
  period_end :: string
  channels_analyzed :: nat

record time_series_data =
  dates :: "string list"
  target :: "number list"
  series_channel_contributions :: "number list obj"

record report_data =
  model_summary :: model_summary
  channel_performance :: "channel_performance_entry obj"
  time_series_data :: time_series_data

text \<open>
  The first loop over \<open>channelColumns\<close>. Its state is \<open>totalContribution\<close>,
  \<open>reportData.channel_performance\<close> and
  \<open>reportData.time_series_data.channel_contributions\<close>. A channel with no entry in
  \<open>results.channel_contributions\<close> makes \<open>undefined.reduce\<close> throw, and one with no
  entry in \<open>results.roi_values\<close> makes \<open>undefined.mean\<close> throw.
\<close>

fun performance_loop ::
    "model_results \<Rightarrow> string list
       \<Rightarrow> number \<times> channel_performance_entry obj \<times> number list obj
       \<Rightarrow> error + (number \<times> channel_performance_entry obj \<times> number list obj)" where
  "performance_loop res [] acc = Inr acc"
| "performance_loop res (channel # rest) (totalContribution, performance, contributions) =
     (case map_of (channel_contributions res) channel of
        None \<Rightarrow> Inl TypeError
      | Some series \<Rightarrow>
          (let channelContribution = reduce_sum series;
               totalContribution = js_add totalContribution channelContribution
           in (case map_of (roi_values res) channel of
                 None \<Rightarrow> Inl TypeError
               | Some r \<Rightarrow>
                   performance_loop res rest
                     (totalContribution,
                      AList.update channel
                        \<lparr>roi = mean r, roi_lower = lower_bound r, roi_upper = upper_bound r,
                         total_contribution = channelContribution,
                         contribution_percentage = Fin 0\<rparr> performance,
                      AList.update channel series contributions))))"

text \<open>
  The second loop: every percentage is the channel's total over the grand total, with no
  test of the divisor. An entry that is missing would make the assignment throw.
\<close>

fun percentage_loop ::
    "number \<Rightarrow> string list \<Rightarrow> channel_performance_entry obj
       \<Rightarrow> error + channel_performance_entry obj" where
  "percentage_loop totalContribution [] performance = Inr performance"
| "percentage_loop totalContribution (channel # rest) performance =
     (case map_of performance channel of
        None \<Rightarrow> Inl TypeError
      | Some p \<Rightarrow>
          percentage_loop totalContribution rest
            (AList.update channel
               (p\<lparr>contribution_percentage :=
                    js_div (total_contribution p) totalContribution\<rparr>) performance))"

text \<open>
  The method. The object literal is evaluated first (summary, dates, target), then the
  two loops run. As in the allocator, the \<open>catch\<close> block logs and throws again.
\<close>

definition generate_report_data :: "environment \<Rightarrow> wrapper \<Rightarrow> error + report_data" where
  "generate_report_data env this =
     (case results this of
        None \<Rightarrow> Inl (Error ''No model results. Call fit_model() first.'')
      | Some res \<Rightarrow>
          (let summary = \<lparr>summary_r_squared = r_squared (model_fit res),
                          summary_mape = mape (model_fit res),
                          period_start = ''2025-01-01'', period_end = ''2025-03-31'',
                          channels_analyzed = length (channelColumns this)\<rparr>;
               dates = map (date_label env) [0..<90];
               target = map (\<lambda>i. js_add (js_mul (Fin (random env i)) (Fin 10000)) (Fin 5000))
                            [0..<90]
           in (case performance_loop res (channelColumns this) (Fin 0, [], []) of
                 Inl e \<Rightarrow> Inl e
               | Inr (totalContribution, performance, contributions) \<Rightarrow>
                   (case percentage_loop totalContribution (channelColumns this) performance of
                      Inl e \<Rightarrow> Inl e
                    | Inr performance' \<Rightarrow>
                        Inr \<lparr>model_summary = summary,
                             channel_performance = performance',
                             time_series_data =
                               \<lparr>dates = dates, target = target,
                                series_channel_contributions = contributions\<rparr>\<rparr>))))"

subsection \<open>Vocabulary of the stated properties\<close>

text \<open>
  Equality and order of two numbers up to an absolute tolerance. NaN is within tolerance
  of nothing and below nothing.
\<close>

fun approx_eq :: "real \<Rightarrow> number \<Rightarrow> number \<Rightarrow> bool" where
  "approx_eq tol (Fin a) (Fin b) = (\<bar>a - b\<bar> \<le> tol)"
| "approx_eq tol PInf PInf = True"
| "approx_eq tol NInf NInf = True"
| "approx_eq tol x y = False"

fun leq_tol :: "real \<Rightarrow> number \<Rightarrow> number \<Rightarrow> bool" where
  "leq_tol tol (Fin a) (Fin b) = (a \<le> b + tol)"
| "leq_tol tol (Fin a) PInf = True"
| "leq_tol tol NInf (Fin b) = True"
| "leq_tol tol NInf NInf = True"
| "leq_tol tol NInf PInf = True"
| "leq_tol tol PInf PInf = True"
| "leq_tol tol x y = False"

text \<open>An amount respects a constraint when it is within each bound that is supplied.\<close>

definition within_bounds :: "real \<Rightarrow> budget_constraint \<Rightarrow> number \<Rightarrow> bool" where
  "within_bounds tol c a =
     ((case min_c c of None \<Rightarrow> True | Some lo \<Rightarrow> leq_tol tol lo a)
      \<and> (case max_c c of None \<Rightarrow> True | Some hi \<Rightarrow> leq_tol tol a hi))"



text \<open>The sum of a series of finite numbers, as a real.\<close>

definition series_sum :: "number list \<Rightarrow> real" where
  "series_sum xs = sum_list (map the_real xs)"



text \<open>
  A channel that has both a contribution series and an ROI estimate in the results, and a
  channel whose series holds finite numbers only.
\<close>

definition known_channel :: "model_results \<Rightarrow> string \<Rightarrow> bool" where
  "known_channel res c =
     (case map_of (channel_contributions res) c of
        None \<Rightarrow> False
      | Some series \<Rightarrow> (case map_of (roi_values res) c of None \<Rightarrow> False | Some r \<Rightarrow> True))"


text \<open>
  The entry the first loop of the aggregator stores for a channel, and the assignment the
  second loop makes to it.
\<close>

definition stored_entry :: "model_results \<Rightarrow> string \<Rightarrow> channel_performance_entry" where
  "stored_entry res c =
     (let r = the (map_of (roi_values res) c)
      in \<lparr>roi = mean r, roi_lower = lower_bound r, roi_upper = upper_bound r,
          total_contribution = reduce_sum (the (map_of (channel_contributions res) c)),
          contribution_percentage = Fin 0\<rparr>)"


subsection \<open>Example inputs\<close>

text \<open>
  A wrapper whose results hold, for each listed channel, the given contribution series
  and an ROI estimate with the given mean; \<open>channelColumns\<close> lists the same channels.
\<close>

definition point_estimate :: "number \<Rightarrow> roi_estimate" where
  "point_estimate m = \<lparr>mean = m, std = Fin 0, lower_bound = m, upper_bound = m\<rparr>"

definition example_wrapper :: "(string \<times> real list \<times> real) list \<Rightarrow> wrapper" where
  "example_wrapper chans =
     \<lparr>results = Some \<lparr>channel_contributions = map (\<lambda>(c, s, m). (c, map Fin s)) chans,
                       roi_values = map (\<lambda>(c, s, m). (c, point_estimate (Fin m))) chans,
                       model_fit = \<lparr>r_squared = Fin 1, mape = Fin 0\<rparr>\<rparr>,
      channelColumns = map (\<lambda>(c, s, m). c) chans\<rparr>"

subsection \<open>Association lists and the loops of the allocator\<close>


lemma update_middle:
  "k \<notin> fst ` set pre \<Longrightarrow> AList.update k v (pre @ (k, a) # xs) = pre @ (k, v) # xs"
  by (induction pre) auto

lemma map_of_middle:
  "k \<notin> fst ` set pre \<Longrightarrow> map_of (pre @ (k, a) # xs) k = Some a"
  by (induction pre) auto




lemma foldl_js_add_Fin:
  "list_all is_Fin xs \<Longrightarrow> foldl js_add (Fin a) xs = Fin (a + series_sum xs)"
proof (induction xs arbitrary: a)
  case Nil
  then show ?case by (simp add: series_sum_def)
next
  case (Cons x xs)
  then obtain b where "x = Fin b" by (cases x) auto
  with Cons show ?case by (simp add: series_sum_def add.assoc)
qed

lemma reduce_sum_Fin: "list_all is_Fin xs \<Longrightarrow> reduce_sum xs = Fin (series_sum xs)"
  by (simp add: reduce_sum_def foldl_js_add_Fin)

lemma rescale_loop:
  "distinct (map fst (pre @ xs)) \<Longrightarrow>
   fold (\<lambda>channel acc. case map_of acc channel of
                          None \<Rightarrow> acc
                        | Some a \<Rightarrow> AList.update channel (g a) acc) (map fst xs) (pre @ xs)
     = pre @ map (\<lambda>(c, a). (c, g a)) xs"
proof (induction xs arbitrary: pre)
  case Nil
  then show ?case by simp
next
  case (Cons x xs)
  obtain k a where x: "x = (k, a)" by (cases x)
  from Cons.prems have fresh: "k \<notin> fst ` set pre" by (auto simp: x)
  from Cons.prems have "distinct (map fst ((pre @ [(k, g a)]) @ xs))" by (auto simp: x)
  from Cons.IH [OF this] show ?case
    by (simp add: x map_of_middle [OF fresh] update_middle [OF fresh] del: map_of_append)
qed

lemma normalize_distinct:
  "distinct (map fst al) \<Longrightarrow>
   normalize totalBudget al =
     (if js_sne (reduce_sum (map snd al)) totalBudget
      then map (\<lambda>(c, a). (c, js_mul a (js_div totalBudget (reduce_sum (map snd al))))) al
      else al)"
  unfolding normalize_def Let_def using rescale_loop [of "[]" al] by simp



















lemmas allocator_defs =
  get_optimal_budget_allocation_def clamped_allocation_def roiMeans_of_def
  initial_allocation_def apply_constraints_def apply_constraint_def normalize_def
  reduce_sum_def js_gt_def example_wrapper_def point_estimate_def Let_def

lemmas aggregator_defs =
  generate_report_data_def reduce_sum_def example_wrapper_def point_estimate_def Let_def

subsection \<open>The loops of the aggregator\<close>

text \<open>
  The first loop succeeds when every channel is known, and the second when every channel
  has an entry. Both are described through the lookup function of the object they build
  (for any \<open>channelColumns\<close>) and as a list (for distinct channels).
\<close>

lemma performance_loop_maps:
  assumes "list_all (known_channel res) cs"
  shows "\<exists>total perf contr.
           performance_loop res cs (t0, p0, c0) = Inr (total, perf, contr)
           \<and> total = foldl js_add t0 (map (\<lambda>c. reduce_sum (the (map_of (channel_contributions res) c))) cs)
           \<and> map_of perf = (\<lambda>c. if c \<in> set cs then Some (stored_entry res c) else map_of p0 c)
           \<and> map_of contr = (\<lambda>c. if c \<in> set cs then map_of (channel_contributions res) c
                                   else map_of c0 c)"
  using assms
proof (induction cs arbitrary: t0 p0 c0)
  case Nil
  then show ?case by simp
next
  case (Cons c cs)
  from Cons.prems obtain series r where
    s: "map_of (channel_contributions res) c = Some series" and
    r: "map_of (roi_values res) c = Some r"
    by (auto simp: known_channel_def split: option.splits)
  from Cons.prems have rest: "list_all (known_channel res) cs" by simp
  let ?e = "\<lparr>roi = mean r, roi_lower = lower_bound r, roi_upper = upper_bound r,
             total_contribution = reduce_sum series, contribution_percentage = Fin 0\<rparr>"
  have e: "stored_entry res c = ?e" by (simp add: stored_entry_def s r)
  from Cons.IH [OF rest, of "js_add t0 (reduce_sum series)" "AList.update c ?e p0"
      "AList.update c series c0"]
  show ?case
    by (auto simp: s r e Let_def update_conv' fun_eq_iff)
qed

lemma percentage_loop_maps:
  assumes "set cs \<subseteq> fst ` set perf"
  shows "\<exists>perf'. percentage_loop T cs perf = Inr perf'
           \<and> map fst perf' = map fst perf
           \<and> map_of perf' = (\<lambda>c. if c \<in> set cs
                 then map_option (\<lambda>p. p\<lparr>contribution_percentage := js_div (total_contribution p) T\<rparr>)
                        (map_of perf c)
                 else map_of perf c)"
  using assms
proof (induction cs arbitrary: perf)
  case Nil
  then show ?case by simp
next
  case (Cons c cs)
  from Cons.prems have "c \<in> fst ` set perf" by simp
  then obtain p where p: "map_of perf c = Some p"
    by (metis domD dom_map_of_conv_image_fst)
  let ?u = "\<lambda>p. p\<lparr>contribution_percentage := js_div (total_contribution p) T\<rparr>"
  let ?perf = "AList.update c (?u p) perf"
  have keys: "map fst ?perf = map fst perf"
    using \<open>c \<in> fst ` set perf\<close> by (simp add: update_keys)
  then have "fst ` set ?perf = fst ` set perf"
    by (metis list.set_map)
  with Cons.prems have "set cs \<subseteq> fst ` set ?perf" by simp
  from Cons.IH [OF this] obtain perf' where
    1: "percentage_loop T cs ?perf = Inr perf'" and
    2: "map fst perf' = map fst ?perf" and
    3: "map_of perf' = (\<lambda>x. if x \<in> set cs then map_option ?u (map_of ?perf x) else map_of ?perf x)"
    by blast
  have "percentage_loop T (c # cs) perf = Inr perf'"
    using 1 p by simp
  moreover have "map fst perf' = map fst perf" using 2 keys by simp
  moreover have "map_of perf' = (\<lambda>x. if x \<in> set (c # cs) then map_option ?u (map_of perf x) else map_of perf x)"
    unfolding 3 by (auto simp: fun_eq_iff update_conv' p)
  ultimately show ?case by blast
qed




lemma foldl_js_add_map_Fin:
  "foldl js_add (Fin a) (map (\<lambda>c. Fin (f c)) cs) = Fin (a + sum_list (map f cs))"
  by (induction cs arbitrary: a) (simp_all add: add.assoc)


subsection \<open>Properties of the budget allocator\<close>

text \<open>
  C10. When the allocator is called while the wrapper's \<open>results\<close> field is \<open>null\<close>,
  it throws the generic error with the message
  \<open>No model results. Call fit_model() first.\<close>; this error is neither
  \<open>DegenerateWeightsError\<close> nor \<open>InfeasibleConstraintsError\<close>, and no allocation is
  returned.
\<close>

theorem allocation_without_results:
  assumes "results this = None"
  shows "get_optimal_budget_allocation this totalBudget constraints
           = Inl (Error ''No model results. Call fit_model() first.'')
         \<and> get_optimal_budget_allocation this totalBudget constraints
             \<noteq> Inl DegenerateWeightsError
         \<and> get_optimal_budget_allocation this totalBudget constraints
             \<noteq> Inl (InfeasibleConstraintsError channels)
         \<and> get_optimal_budget_allocation this totalBudget constraints \<noteq> Inr allocation"
  using assms by (simp add: get_optimal_budget_allocation_def)

theorem allocation_without_results_witness:
  "results \<lparr>results = None, channelColumns = [''tv'']\<rparr> = None
   \<and> get_optimal_budget_allocation \<lparr>results = None, channelColumns = [''tv'']\<rparr> (Fin 100) None
       = Inl (Error ''No model results. Call fit_model() first.'')"
  using allocation_without_results [of "\<lparr>results = None, channelColumns = [''tv'']\<rparr>" "Fin 100" None]
  by simp

text \<open>
  C1. A returned allocation should keep every constrained channel within its bounds, up to
  \<open>1e-6\<close>. The method clamps each constrained channel and then rescales every channel
  by one factor, which moves a clamped amount out of its bounds. With ROI means
  \<open>A: 3\<close>, \<open>B: 1\<close>, the budget 128 and the constraint \<open>A: {max: 32}\<close> (which the
  allocation \<open>A = 32\<close>, \<open>B = 96\<close> satisfies), the method returns \<open>A = 64\<close>,
  \<open>B = 64\<close>: the amount of \<open>A\<close> is twice its maximum. Every intermediate value is a
  small integer, exact in binary64.
\<close>

theorem rescale_breaks_upper_bound:
  "get_optimal_budget_allocation (example_wrapper [(''A'', [], 3), (''B'', [], 1)]) (Fin 128)
       (Some [(''A'', \<lparr>min_c = None, max_c = Some (Fin 32)\<rparr>)])
     = Inr [(''A'', Fin 64), (''B'', Fin 64)]
   \<and> \<not> within_bounds (1 / 10 ^ 6) \<lparr>min_c = None, max_c = Some (Fin 32)\<rparr> (Fin 64)"
  by (simp add: allocator_defs within_bounds_def)

text \<open>
  C2. For a feasible constraint set the returned amounts should sum to the budget, up to
  \<open>1e-6\<close>. When the clamped amounts sum to zero the scaling factor is
  \<open>totalBudget / 0\<close>, and the method returns NaN for every channel. With ROI means
  \<open>A: 1\<close>, \<open>B: 0\<close>, the budget 100 and the constraint \<open>A: {max: 0}\<close> (which the
  allocation \<open>A = 0\<close>, \<open>B = 100\<close> satisfies), the clamped amounts are \<open>0\<close> and
  \<open>0\<close>, the factor is \<open>Infinity\<close>, and both returned amounts are
  \<open>0 * Infinity = NaN\<close>; their sum is NaN, not 100.
\<close>

theorem zero_clamped_total_gives_nan:
  "get_optimal_budget_allocation (example_wrapper [(''A'', [], 1), (''B'', [], 0)]) (Fin 100)
       (Some [(''A'', \<lparr>min_c = None, max_c = Some (Fin 0)\<rparr>)])
     = Inr [(''A'', NaN), (''B'', NaN)]
   \<and> \<not> approx_eq (1 / 10 ^ 6) (reduce_sum (map snd [(''A'', NaN), (''B'', NaN)])) (Fin 100)"
  by (simp add: allocator_defs)

text \<open>
  The rescale does restore the total whenever the clamped amounts are finite and do not
  sum to zero; the zero total is the case the method misses.
\<close>

lemma sum_list_scaled:
  fixes k :: real
  shows "sum_list (map (\<lambda>x. f x * k) xs) = sum_list (map f xs) * k"
  by (induction xs) (simp_all add: distrib_right)

lemma normalize_restores_total:
  assumes "distinct (map fst al)"
    and "list_all is_Fin (map snd al)"
    and "series_sum (map snd al) \<noteq> 0"
  shows "reduce_sum (map snd (normalize (Fin B) al)) = Fin B"
proof -
  let ?t = "series_sum (map snd al)"
  have tot: "reduce_sum (map snd al) = Fin ?t"
    by (rule reduce_sum_Fin [OF assms(2)])
  show ?thesis
  proof (cases "?t = B")
    case True
    have "normalize (Fin B) al = al"
      unfolding normalize_distinct [OF assms(1)] tot using True by simp
    with tot True show ?thesis by simp
  next
    case False
    have n: "normalize (Fin B) al = map (\<lambda>(c, a). (c, js_mul a (js_div (Fin B) (Fin ?t)))) al"
      unfolding normalize_distinct [OF assms(1)] tot using False by simp
    have "map snd (map (\<lambda>(c, a). (c, js_mul a (js_div (Fin B) (Fin ?t)))) al)
            = map (\<lambda>x. Fin (the_real (snd x) * (B / ?t))) al"
      using assms(2,3) by (auto simp: list_all_iff is_Fin_def)
    then have v: "map snd (normalize (Fin B) al) = map (\<lambda>x. Fin (the_real (snd x) * (B / ?t))) al"
      by (simp only: n)
    have "sum_list (map (\<lambda>x. the_real (snd x) * (B / ?t)) al) = ?t * (B / ?t)"
      unfolding sum_list_scaled by (simp add: series_sum_def comp_def)
    also have "\<dots> = B" using assms(3) by simp
    finally show ?thesis
      unfolding v reduce_sum_def foldl_js_add_map_Fin by simp
  qed
qed







text \<open>
  When the ROI means sum to zero the seed is \<open>roi / 0\<close>: the amounts are infinite, their
  total is NaN, and the rescale turns every amount into NaN.
\<close>

lemma zero_weight_sum_gives_nan:
  "get_optimal_budget_allocation (example_wrapper [(''A'', [], 1), (''B'', [], -1)])
       (Fin 128) None
     = Inr [(''A'', NaN), (''B'', NaN)]"
  by (simp add: allocator_defs)




subsection \<open>Properties of the attribution aggregator\<close>

text \<open>
  C5. When every channel's contributions sum to zero, every
  \<open>contribution_percentage\<close> should be exactly \<open>0\<close>. The method divides by the grand
  total without a guard: for the channels \<open>A: [0, 0, 0]\<close> and \<open>B: [0, 0, 0]\<close> each
  percentage is \<open>0 / 0 = NaN\<close>.
\<close>

theorem zero_total_gives_nan_percentages:
  "map_sum id (map (\<lambda>(c, p). (c, contribution_percentage p)) \<circ> channel_performance)
     (generate_report_data env (example_wrapper [(''A'', [0, 0, 0], 3), (''B'', [0, 0, 0], 1)]))
     = Inr [(''A'', NaN), (''B'', NaN)]"
  by (simp add: aggregator_defs)




text \<open>
  C7 (as amended). The aggregator does not compare the lengths of the series. Whenever
  results exist and every channel of \<open>channelColumns\<close> has a series and an ROI
  estimate, it returns a summary with an entry for every channel, whatever the lengths of
  the series, and each \<open>total_contribution\<close> is the sum of the channel's own series. It
  never fails with \<open>MisalignedSeriesError\<close>.
\<close>

theorem misaligned_series_are_aggregated:
  assumes "results this = Some res"
    and "list_all (known_channel res) (channelColumns this)"
  shows "(\<exists>rep. generate_report_data env this = Inr rep
            \<and> fst ` set (channel_performance rep) = set (channelColumns this)
            \<and> list_all (\<lambda>c. \<exists>p. map_of (channel_performance rep) c = Some p
                           \<and> total_contribution p
                               = reduce_sum (the (map_of (channel_contributions res) c)))
                (channelColumns this))
         \<and> generate_report_data env this \<noteq> Inl (MisalignedSeriesError channels)"
proof -
  let ?cs = "channelColumns this"
  from performance_loop_maps [OF assms(2), of "Fin 0" "[]" "[]"]
  obtain total perf contr where
    loop: "performance_loop res ?cs (Fin 0, [], []) = Inr (total, perf, contr)" and
    perf: "map_of perf = (\<lambda>c. if c \<in> set ?cs then Some (stored_entry res c) else map_of [] c)"
    by blast
  have "dom (map_of perf) = set ?cs"
    unfolding perf by (auto split: if_splits)
  then have keys: "fst ` set perf = set ?cs"
    by (simp add: dom_map_of_conv_image_fst)
  then have "set ?cs \<subseteq> fst ` set perf" by simp
  from percentage_loop_maps [OF this, of total]
  obtain perf' where
    loop2: "percentage_loop total ?cs perf = Inr perf'" and
    keys': "map fst perf' = map fst perf" and
    perf': "map_of perf' = (\<lambda>c. if c \<in> set ?cs
               then map_option (\<lambda>p. p\<lparr>contribution_percentage := js_div (total_contribution p) total\<rparr>)
                      (map_of perf c)
               else map_of perf c)"
    by blast
  have k: "fst ` set perf' = set ?cs"
    using keys keys' by (metis list.set_map)
  have t: "list_all (\<lambda>c. \<exists>p. map_of perf' c = Some p
              \<and> total_contribution p = reduce_sum (the (map_of (channel_contributions res) c))) ?cs"
    unfolding perf' perf by (simp add: list_all_iff stored_entry_def Let_def)
  have "generate_report_data env this
          = Inr \<lparr>model_summary = \<lparr>summary_r_squared = r_squared (model_fit res),
                          summary_mape = mape (model_fit res),
                          period_start = ''2025-01-01'', period_end = ''2025-03-31'',
                          channels_analyzed = length ?cs\<rparr>,
                 channel_performance = perf',
                 time_series_data =
                   \<lparr>dates = map (date_label env) [0..<90],
                    target = map (\<lambda>i. js_add (js_mul (Fin (random env i)) (Fin 10000)) (Fin 5000))
                                 [0..<90],
                    series_channel_contributions = contr\<rparr>\<rparr>"
    unfolding generate_report_data_def Let_def using assms(1) loop loop2 by simp
  with k t show ?thesis by simp
qed

theorem misaligned_series_are_aggregated_witness:
  "list_all (known_channel (the (results (example_wrapper [(''A'', [1, 2], 3), (''B'', [5], 1)]))))
        (channelColumns (example_wrapper [(''A'', [1, 2], 3), (''B'', [5], 1)]))
   \<and> (\<exists>rep. generate_report_data \<lparr>random = (\<lambda>i. 0), date_label = (\<lambda>i. [])\<rparr>
               (example_wrapper [(''A'', [1, 2], 3), (''B'', [5], 1)]) = Inr rep
          \<and> fst ` set (channel_performance rep) = {''A'', ''B''})"
proof -
  let ?w = "example_wrapper [(''A'', [1, 2], 3), (''B'', [5], 1)]"
  let ?r = "the (results ?w)"
  have r: "results ?w = Some ?r"
    by (simp add: example_wrapper_def)
  have cols: "channelColumns ?w = [''A'', ''B'']"
    by (simp add: example_wrapper_def)
  have k: "list_all (known_channel ?r) (channelColumns ?w)"
    by (simp add: cols) (simp add: known_channel_def example_wrapper_def)
  from misaligned_series_are_aggregated [OF r k,
      of "\<lparr>random = (\<lambda>i. 0), date_label = (\<lambda>i. [])\<rparr>"]
  have "\<exists>rep. generate_report_data \<lparr>random = (\<lambda>i. 0), date_label = (\<lambda>i. [])\<rparr> ?w = Inr rep
          \<and> fst ` set (channel_performance rep) = set (channelColumns ?w)"
    by blast
  moreover have "set (channelColumns ?w) = {''A'', ''B''}"
    by (simp add: cols)
  ultimately show ?thesis
    using k by (simp only: simp_thms)
qed

text \<open>
  The series \<open>A: [1, 2]\<close> and \<open>B: [5]\<close> have different lengths, and the method returns
  the summary of both channels.
\<close>

theorem misaligned_series_counterexample:
  "map_sum id (map (\<lambda>(c, p). (c, total_contribution p, contribution_percentage p))
                 \<circ> channel_performance)
     (generate_report_data \<lparr>random = (\<lambda>i. 0), date_label = (\<lambda>i. [])\<rparr>
        (example_wrapper [(''A'', [1, 2], 3), (''B'', [5], 1)]))
     = Inr [(''A'', Fin 3, Fin (3 / 8)), (''B'', Fin 5, Fin (5 / 8))]"
  by (simp add: aggregator_defs)

text \<open>
  C9 (as amended). The output of \<open>generate_report_data\<close> depends on the environment
  only through \<open>time_series_data.target\<close>, which holds 90 fresh values of
  \<open>Math.random\<close> at every invocation, and through the date labels, which are computed
  with the host's \<open>Date\<close>. The model summary, the channel performance, the copied
  contribution series, and the error when there is one, are a function of the wrapper's
  state: two invocations on the same state differ in nothing else.
\<close>

theorem only_target_and_dates_depend_on_environment:
  "generate_report_data env2 this
     = map_sum id
         (\<lambda>rep. rep\<lparr>time_series_data :=
                   (time_series_data rep)
                     \<lparr>dates := map (date_label env2) [0..<90],
                      target := map (\<lambda>i. js_add (js_mul (Fin (random env2 i)) (Fin 10000))
                                             (Fin 5000)) [0..<90]\<rparr>\<rparr>)
         (generate_report_data env1 this)"
  by (simp add: generate_report_data_def Let_def split: option.splits sum.splits prod.splits)

text \<open>
  Two invocations on the same state whose random draws differ (\<open>0\<close> in one, \<open>0.5\<close> in
  the other, so the targets are \<open>5000\<close> and \<open>10000\<close>) return different outputs.
\<close>

theorem random_target_counterexample:
  "generate_report_data \<lparr>random = (\<lambda>i. 0), date_label = (\<lambda>i. [])\<rparr>
       (example_wrapper [(''A'', [1], 1)])
     \<noteq> generate_report_data \<lparr>random = (\<lambda>i. 1 / 2), date_label = (\<lambda>i. [])\<rparr>
         (example_wrapper [(''A'', [1], 1)])"
proof -
  have "\<exists>i::nat. i < 90"
    by (rule exI [of _ 0]) simp
  then show ?thesis
    by (simp add: aggregator_defs)
qed

end
